theory Spec2Isabelle
  imports Main
begin

section \<open>The organization-deletion edge function\<close>

text \<open>
  The repository holds one serverless routine, the handler passed to \<open>serve\<close>: it checks
  that the caller is a super admin, reads \<open>organizationId\<close> from the request body, builds a
  service-role client, looks the organization up, deletes the authentication account of
  every linked profile and finally deletes the organization row. Everything it talks to
  (the identity provider and the relational store behind the two Supabase clients) lives
  outside the repository, so those calls are parameters of the model: a record of
  operations over an arbitrary backend state. Every call the handler issues and every
  console line it writes is appended, with the answer it got, to a trace, so that
  statements about which calls were issued, and in which order, are statements about
  that list.

  A call answers the way the handler destructures it: \<open>getUser\<close> with a user or null, a
  query with \<open>data\<close> and \<open>error\<close>, a deletion with an \<open>error\<close> or none. Two calls of the
  imported client can also throw, and both do so inside the handler's \<open>try\<close>:
  \<open>createClient\<close> throws when it is given an empty URL or an empty key (what
  \<open>Deno.env.get(...) ?? ''\<close> hands it when the variable is unset), and
  \<open>auth.admin.deleteUser\<close> rejects when it refuses its argument (an id that is not a
  UUID). Both are part of the model. A non-empty URL is taken to be one the client
  accepts.
\<close>

subsection \<open>Values that cross the boundary\<close>

text \<open>
  \<open>json\<close> is what \<open>req.json()\<close> yields. \<open>JNum\<close> carries the parsed number when it is
  an integer; the handler only ever tests a number for being zero and hands it on.
\<close>

datatype json =
    JNull
  | JBool bool
  | JNum int
  | JStr string
  | JArr "json list"
  | JObj "(string \<times> json) list"

record request =
  req_method :: string
  req_authorization :: "string option"
  req_body :: "json option"

text \<open>\<open>req_body = None\<close>: \<open>req.json()\<close> rejects (the body is not JSON).\<close>

record env =
  SUPABASE_URL :: "string option"
  SUPABASE_ANON_KEY :: "string option"
  SERVICE_ROLE_KEY :: "string option"

text \<open>
  A client is what \<open>createClient(url, key, options?)\<close> was given. The caller-scoped
  client is built with the options \<open>{ global: { headers: { Authorization: h } } }\<close>, where
  \<open>h\<close> is the request's header or null; the service-role client is built without options.
\<close>

record client =
  client_url :: string
  client_key :: string
  client_options :: "string option option"

datatype user = User (user_ident: string)

record profile_role =
  role :: "string option"

record profile_link =
  user_id :: "string option"

record organization =
  org_id :: string
  org_name :: string

datatype backend_error = BackendError (error_message: string)

text \<open>What awaiting a call that may reject gives: the rejection's message, or the answer.\<close>

datatype 'a awaited = Rejected string | Answered 'a

record 'a reply =
  reply_data :: "'a option"
  reply_error :: "backend_error option"

text \<open>
  The operations of the two collaborators, as the handler calls them. Each takes the
  client it is called on and the backend state, and returns what the handler destructures
  from the answer together with the next backend state.
\<close>

record 'w backend =
  auth_getUser :: "client \<Rightarrow> 'w \<Rightarrow> user option \<times> 'w"
  profiles_select_role :: "client \<Rightarrow> string \<Rightarrow> 'w \<Rightarrow> profile_role option \<times> 'w"
  organizations_select :: "client \<Rightarrow> json \<Rightarrow> 'w \<Rightarrow> organization reply \<times> 'w"
  profiles_select_user_id :: "client \<Rightarrow> json \<Rightarrow> 'w \<Rightarrow> profile_link list reply \<times> 'w"
  auth_admin_deleteUser :: "client \<Rightarrow> string \<Rightarrow> 'w \<Rightarrow> backend_error option awaited \<times> 'w"
  organizations_delete :: "client \<Rightarrow> json \<Rightarrow> 'w \<Rightarrow> backend_error option \<times> 'w"

subsection \<open>Trace, thrown errors, responses\<close>

datatype console_line =
    LogReceivedBody json
  | ErrFailedToParseBody
  | ErrServiceKeyMissing
  | ErrFetchingOrganization backend_error
  | ErrOrganizationNotFound json
  | LogDeletingOrganization organization
  | ErrFindingLinkedUsers backend_error
  | LogDeletingAuthUser string
  | ErrFailedToDeleteAuthUser string backend_error
  | ErrEdgeFunction string

datatype event =
    CreateClient client
  | GetUser client "user option"
  | SelectRole client string "profile_role option"
  | ReadJson "json option"
  | SelectOrg client json "organization reply"
  | SelectUsers client json "profile_link list reply"
  | DeleteUser client string "backend_error option awaited"
  | DeleteOrg client json "backend_error option"
  | Console console_line

record 'w st =
  world :: 'w
  trace :: "event list"

text \<open>
  What can reach the \<open>catch\<close>, in source order: the two errors \<open>createClient\<close> throws, one
  constructor for each \<open>throw\<close> of the handler, and the rejection of a \<open>deleteUser\<close> call
  (raised inside the loop, after the organization was found and before it is deleted).
\<close>

datatype thrown =
    ThrowSupabaseUrlRequired
  | ThrowSupabaseKeyRequired
  | ThrowUnauthorized
  | ThrowOnlySuperAdmins
  | ThrowInvalidRequestBody
  | ThrowOrganizationIdRequired
  | ThrowServiceKeyMissing
  | ThrowDatabaseError backend_error
  | ThrowOrganizationNotFound
  | ThrowDeleteUserRejected string
  | ThrowDeleteOrgError backend_error

fun thrown_message :: "thrown \<Rightarrow> string" where
  "thrown_message ThrowSupabaseUrlRequired = ''supabaseUrl is required.''"
| "thrown_message ThrowSupabaseKeyRequired = ''supabaseKey is required.''"
| "thrown_message ThrowUnauthorized = ''Unauthorized''"
| "thrown_message ThrowOnlySuperAdmins = ''Unauthorized: Only Super Admins can perform this action''"
| "thrown_message ThrowInvalidRequestBody = ''Invalid request body''"
| "thrown_message ThrowOrganizationIdRequired = ''Organization ID is required''"
| "thrown_message ThrowServiceKeyMissing = ''Server misconfiguration: Service Role Key is missing''"
| "thrown_message (ThrowDatabaseError e) = ''Database Error: '' @ error_message e"
| "thrown_message ThrowOrganizationNotFound = ''Organization not found''"
| "thrown_message (ThrowDeleteUserRejected msg) = msg"
| "thrown_message (ThrowDeleteOrgError e) = error_message e"

datatype response_body = TextBody string | JsonBody json

record response =
  status :: nat
  headers :: "(string \<times> string) list"
  body :: response_body

definition corsHeaders :: "(string \<times> string) list" where
  "corsHeaders =
     [(''Access-Control-Allow-Origin'', ''*''),
      (''Access-Control-Allow-Headers'', ''authorization, x-client-info, apikey, content-type'')]"

definition preflight_response :: response where
  "preflight_response = \<lparr>status = 200, headers = corsHeaders, body = TextBody ''ok''\<rparr>"

definition success_response :: response where
  "success_response =
     \<lparr>status = 200,
      headers = corsHeaders @ [(''Content-Type'', ''application/json'')],
      body = JsonBody (JObj [(''message'', JStr ''Organization and associated accounts deleted successfully'')])\<rparr>"

definition failure_response :: "string \<Rightarrow> response" where
  "failure_response msg =
     \<lparr>status = 400,
      headers = corsHeaders @ [(''Content-Type'', ''application/json'')],
      body = JsonBody (JObj [(''error'', JStr msg),
                             (''details'', JStr ''Check Supabase Function Logs for more info'')])\<rparr>"

subsection \<open>The handler, step by step\<close>

definition emit :: "event \<Rightarrow> 'w st \<Rightarrow> 'w st" where
  "emit e s = s\<lparr>trace := trace s @ [e]\<rparr>"

text \<open>An awaited backend call: run it on the backend state and record call and answer.\<close>

definition await :: "('w \<Rightarrow> 'r \<times> 'w) \<Rightarrow> ('r \<Rightarrow> event) \<Rightarrow> 'w st \<Rightarrow> 'r \<times> 'w st" where
  "await f ev s = (case f (world s) of (r, w') \<Rightarrow> (r, \<lparr>world = w', trace = trace s @ [ev r]\<rparr>))"

text \<open>
  \<open>createClient(url, key, options?)\<close> of the imported client: it throws
  \<open>supabaseUrl is required.\<close> on an empty URL, then \<open>supabaseKey is required.\<close> on an empty
  key, and otherwise returns the client.
\<close>

definition createClient :: "string \<Rightarrow> string \<Rightarrow> string option option \<Rightarrow> thrown + client" where
  "createClient url k opts =
     (if url = [] then Inl ThrowSupabaseUrlRequired
      else if k = [] then Inl ThrowSupabaseKeyRequired
      else Inr \<lparr>client_url = url, client_key = k, client_options = opts\<rparr>)"

definition or_empty :: "string option \<Rightarrow> string" where
  "or_empty v = (case v of None \<Rightarrow> [] | Some s \<Rightarrow> s)"

text \<open>
  The two clients of the handler, as \<open>createClient\<close> returns them when it returns: the
  caller-scoped one of lines 17-21 and the service-role one of lines 64-67.
  \<open>constructible\<close> says that \<open>createClient\<close> does return on these arguments.
\<close>

definition caller_client :: "env \<Rightarrow> request \<Rightarrow> client" where
  "caller_client e req =
     \<lparr>client_url = or_empty (SUPABASE_URL e), client_key = or_empty (SUPABASE_ANON_KEY e),
      client_options = Some (req_authorization req)\<rparr>"

definition admin_client :: "env \<Rightarrow> string \<Rightarrow> client" where
  "admin_client e serviceRoleKey =
     \<lparr>client_url = or_empty (SUPABASE_URL e), client_key = serviceRoleKey,
      client_options = None\<rparr>"

definition constructible :: "client \<Rightarrow> bool" where
  "constructible c = (client_url c \<noteq> [] \<and> client_key c \<noteq> [])"

text \<open>Steps 1 and 2: the caller-scoped client, \<open>auth.getUser()\<close>, the role lookup.\<close>

definition check_super_admin ::
  "'w backend \<Rightarrow> env \<Rightarrow> request \<Rightarrow> 'w st \<Rightarrow> (thrown + unit) \<times> 'w st" where
  "check_super_admin B e req s =
     (case createClient (or_empty (SUPABASE_URL e)) (or_empty (SUPABASE_ANON_KEY e))
             (Some (req_authorization req)) of
        Inl t \<Rightarrow> (Inl t, s)
      | Inr supabaseClient \<Rightarrow>
          (case await (auth_getUser B supabaseClient) (GetUser supabaseClient)
                      (emit (CreateClient supabaseClient) s) of
             (None, s2) \<Rightarrow> (Inl ThrowUnauthorized, s2)
           | (Some u, s2) \<Rightarrow>
               (case await (profiles_select_role B supabaseClient (user_ident u))
                           (SelectRole supabaseClient (user_ident u)) s2 of
                  (profile, s3) \<Rightarrow>
                    if (case profile of None \<Rightarrow> None | Some p \<Rightarrow> role p) \<noteq> Some ''super_admin''
                    then (Inl ThrowOnlySuperAdmins, s3)
                    else (Inr (), s3))))"

text \<open>
  Step 3. \<open>body.organizationId\<close>: a property read on \<open>null\<close> throws (inside the inner
  \<open>try\<close>), on an object it yields the last value stored under the key or \<open>undefined\<close>, on
  any other JSON value \<open>undefined\<close>. The outer \<open>None\<close> is the throw, the inner one
  \<open>undefined\<close>.
\<close>

fun property_organizationId :: "json \<Rightarrow> json option option" where
  "property_organizationId JNull = None"
| "property_organizationId (JObj kvs) = Some (map_of (rev kvs) ''organizationId'')"
| "property_organizationId _ = Some None"

fun truthy :: "json \<Rightarrow> bool" where
  "truthy JNull = False"
| "truthy (JBool b) = b"
| "truthy (JNum n) = (n \<noteq> 0)"
| "truthy (JStr s) = (s \<noteq> [])"
| "truthy (JArr _) = True"
| "truthy (JObj _) = True"

definition read_organizationId :: "request \<Rightarrow> 'w st \<Rightarrow> (thrown + json) \<times> 'w st" where
  "read_organizationId req s =
     (let s1 = emit (ReadJson (req_body req)) s
      in case req_body req of
           None \<Rightarrow> (Inl ThrowInvalidRequestBody, emit (Console ErrFailedToParseBody) s1)
         | Some b \<Rightarrow>
             (case property_organizationId b of
                None \<Rightarrow> (Inl ThrowInvalidRequestBody, emit (Console ErrFailedToParseBody) s1)
              | Some organizationId \<Rightarrow>
                  (let s2 = emit (Console (LogReceivedBody b)) s1
                   in case organizationId of
                        None \<Rightarrow> (Inl ThrowOrganizationIdRequired, s2)
                      | Some v \<Rightarrow>
                          if truthy v then (Inr v, s2)
                          else (Inl ThrowOrganizationIdRequired, s2))))"

text \<open>Step 4: the service-role key and the client built from it.\<close>

definition make_admin_client :: "env \<Rightarrow> 'w st \<Rightarrow> (thrown + client) \<times> 'w st" where
  "make_admin_client e s =
     (case SERVICE_ROLE_KEY e of
        None \<Rightarrow> (Inl ThrowServiceKeyMissing, emit (Console ErrServiceKeyMissing) s)
      | Some serviceRoleKey \<Rightarrow>
          if serviceRoleKey = []
          then (Inl ThrowServiceKeyMissing, emit (Console ErrServiceKeyMissing) s)
          else
            (case createClient (or_empty (SUPABASE_URL e)) serviceRoleKey None of
               Inl t \<Rightarrow> (Inl t, s)
             | Inr supabaseAdmin \<Rightarrow> (Inr supabaseAdmin, emit (CreateClient supabaseAdmin) s)))"

text \<open>Step 5: the organization row.\<close>

definition find_organization ::
  "'w backend \<Rightarrow> client \<Rightarrow> json \<Rightarrow> 'w st \<Rightarrow> (thrown + organization) \<times> 'w st" where
  "find_organization B supabaseAdmin organizationId s =
     (case await (organizations_select B supabaseAdmin organizationId)
                 (SelectOrg supabaseAdmin organizationId) s of
        (r, s1) \<Rightarrow>
          (case reply_error r of
             Some orgError \<Rightarrow>
               (Inl (ThrowDatabaseError orgError),
                emit (Console (ErrFetchingOrganization orgError)) s1)
           | None \<Rightarrow>
               (case reply_data r of
                  None \<Rightarrow>
                    (Inl ThrowOrganizationNotFound,
                     emit (Console (ErrOrganizationNotFound organizationId)) s1)
                | Some org \<Rightarrow> (Inr org, emit (Console (LogDeletingOrganization org)) s1))))"

text \<open>Step 6: the linked profiles; an error is written to the console and nothing else.\<close>

definition find_linked_users ::
  "'w backend \<Rightarrow> client \<Rightarrow> json \<Rightarrow> 'w st \<Rightarrow> profile_link list option \<times> 'w st" where
  "find_linked_users B supabaseAdmin organizationId s =
     (case await (profiles_select_user_id B supabaseAdmin organizationId)
                 (SelectUsers supabaseAdmin organizationId) s of
        (r, s1) \<Rightarrow>
          (reply_data r,
           case reply_error r of
             Some usersError \<Rightarrow> emit (Console (ErrFindingLinkedUsers usersError)) s1
           | None \<Rightarrow> s1))"

text \<open>
  Step 7: the loop over \<open>users\<close>. A row whose \<open>user_id\<close> is null or empty is skipped; a
  deletion that answers with an error writes a console line and the loop goes on. The
  loop has no \<open>try\<close> of its own: a \<open>deleteUser\<close> that rejects leaves it, and the rejection
  travels to the outer \<open>catch\<close>.
\<close>

fun delete_auth_accounts ::
  "'w backend \<Rightarrow> client \<Rightarrow> profile_link list \<Rightarrow> 'w st \<Rightarrow> (thrown + unit) \<times> 'w st" where
  "delete_auth_accounts B supabaseAdmin [] s = (Inr (), s)"
| "delete_auth_accounts B supabaseAdmin (u # us) s =
     (case user_id u of
        None \<Rightarrow> delete_auth_accounts B supabaseAdmin us s
      | Some uid \<Rightarrow>
          if uid = [] then delete_auth_accounts B supabaseAdmin us s
          else
            (case await (auth_admin_deleteUser B supabaseAdmin uid) (DeleteUser supabaseAdmin uid)
                        (emit (Console (LogDeletingAuthUser uid)) s) of
               (Rejected msg, s1) \<Rightarrow> (Inl (ThrowDeleteUserRejected msg), s1)
             | (Answered None, s1) \<Rightarrow> delete_auth_accounts B supabaseAdmin us s1
             | (Answered (Some deleteAuthError), s1) \<Rightarrow>
                 delete_auth_accounts B supabaseAdmin us
                   (emit (Console (ErrFailedToDeleteAuthUser uid deleteAuthError)) s1)))"

text \<open>Step 8: the organization delete; its error is thrown as it is.\<close>

definition delete_organization ::
  "'w backend \<Rightarrow> client \<Rightarrow> json \<Rightarrow> 'w st \<Rightarrow> (thrown + unit) \<times> 'w st" where
  "delete_organization B supabaseAdmin organizationId s =
     (case await (organizations_delete B supabaseAdmin organizationId)
                 (DeleteOrg supabaseAdmin organizationId) s of
        (None, s1) \<Rightarrow> (Inr (), s1)
      | (Some deleteOrgError, s1) \<Rightarrow> (Inl (ThrowDeleteOrgError deleteOrgError), s1))"

text \<open>The body of the outer \<open>try\<close>.\<close>

definition deprovision_try ::
  "'w backend \<Rightarrow> env \<Rightarrow> request \<Rightarrow> 'w st \<Rightarrow> (thrown + unit) \<times> 'w st" where
  "deprovision_try B e req s0 =
     (case check_super_admin B e req s0 of
        (Inl t, s1) \<Rightarrow> (Inl t, s1)
      | (Inr _, s1) \<Rightarrow>
     (case read_organizationId req s1 of
        (Inl t, s2) \<Rightarrow> (Inl t, s2)
      | (Inr organizationId, s2) \<Rightarrow>
     (case make_admin_client e s2 of
        (Inl t, s3) \<Rightarrow> (Inl t, s3)
      | (Inr supabaseAdmin, s3) \<Rightarrow>
     (case find_organization B supabaseAdmin organizationId s3 of
        (Inl t, s4) \<Rightarrow> (Inl t, s4)
      | (Inr org, s4) \<Rightarrow>
     (case find_linked_users B supabaseAdmin organizationId s4 of
        (users, s5) \<Rightarrow>
     (case delete_auth_accounts B supabaseAdmin
             (case users of None \<Rightarrow> [] | Some us \<Rightarrow> us) s5 of
        (Inl t, s6) \<Rightarrow> (Inl t, s6)
      | (Inr _, s6) \<Rightarrow> delete_organization B supabaseAdmin organizationId s6))))))"

text \<open>
  The \<open>try\<close> with its \<open>catch\<close>: the workflow the specification calls \<open>deprovision\<close>. It
  starts from a backend state and an empty trace.
\<close>

definition deprovision :: "'w backend \<Rightarrow> env \<Rightarrow> request \<Rightarrow> 'w \<Rightarrow> response \<times> 'w st" where
  "deprovision B e req w =
     (case deprovision_try B e req \<lparr>world = w, trace = []\<rparr> of
        (Inr _, s) \<Rightarrow> (success_response, s)
      | (Inl t, s) \<Rightarrow>
          (failure_response (thrown_message t),
           emit (Console (ErrEdgeFunction (thrown_message t))) s))"

text \<open>The function given to \<open>serve\<close>: the CORS preflight answer, then the workflow.\<close>

definition handler :: "'w backend \<Rightarrow> env \<Rightarrow> request \<Rightarrow> 'w \<Rightarrow> response \<times> 'w st" where
  "handler B e req w =
     (if req_method req = ''OPTIONS'' then (preflight_response, \<lparr>world = w, trace = []\<rparr>)
      else deprovision B e req w)"


subsection \<open>The error taxonomy of the specification\<close>

text \<open>
  The specification sorts the failures into five kinds. The handler has no such type: it
  throws errors that differ in their message only. \<open>kind_of\<close> follows the specification's
  words (sections 4.1 and 7) and assigns each \<open>throw\<close> its kind: no identity or a wrong
  role is \<open>Unauthorized\<close>, an unparseable body or a missing id \<open>InvalidRequest\<close>, the
  absent secret \<open>Misconfiguration\<close>, a lookup that errors or finds no row \<open>NotFound\<close>, an
  error of the final delete \<open>DeletionFailed\<close>. The errors the imported client throws are
  not named by the specification; they are \<open>Unclassified\<close>.
\<close>

datatype error_kind =
  Unauthorized | InvalidRequest | Misconfiguration | NotFound | DeletionFailed | Unclassified

fun kind_of :: "thrown \<Rightarrow> error_kind" where
  "kind_of ThrowSupabaseUrlRequired = Unclassified"
| "kind_of ThrowSupabaseKeyRequired = Unclassified"
| "kind_of ThrowUnauthorized = Unauthorized"
| "kind_of ThrowOnlySuperAdmins = Unauthorized"
| "kind_of ThrowInvalidRequestBody = InvalidRequest"
| "kind_of ThrowOrganizationIdRequired = InvalidRequest"
| "kind_of ThrowServiceKeyMissing = Misconfiguration"
| "kind_of (ThrowDatabaseError err) = NotFound"
| "kind_of ThrowOrganizationNotFound = NotFound"
| "kind_of (ThrowDeleteUserRejected msg) = Unclassified"
| "kind_of (ThrowDeleteOrgError err) = DeletionFailed"

text \<open>The kind an invocation fails with; \<open>None\<close> when it succeeds.\<close>

definition failure_kind :: "'w backend \<Rightarrow> env \<Rightarrow> request \<Rightarrow> 'w \<Rightarrow> error_kind option" where
  "failure_kind B e req w =
     (case fst (deprovision_try B e req \<lparr>world = w, trace = []\<rparr>) of
        Inl t \<Rightarrow> Some (kind_of t)
      | Inr _ \<Rightarrow> None)"

subsection \<open>What the claims say about a request\<close>

text \<open>
  The caller's resolved role (specification, section 3): the role stored in the profile
  of the identity the credential resolves to through client \<open>c\<close>; \<open>None\<close> when there is
  no such client (\<open>createClient\<close> throws on its arguments), when no identity resolves,
  when there is no profile, or when the profile has no role.
\<close>

definition resolved_role :: "'w backend \<Rightarrow> client \<Rightarrow> 'w \<Rightarrow> string option" where
  "resolved_role B c w =
     (if \<not> constructible c then None
      else case auth_getUser B c w of
        (None, w1) \<Rightarrow> None
      | (Some u, w1) \<Rightarrow>
          (case fst (profiles_select_role B c (user_ident u) w1) of
             None \<Rightarrow> None
           | Some p \<Rightarrow> role p))"

text \<open>
  The organization a request names: the value of \<open>organizationId\<close> when the body parses,
  has the property and the value is truthy; \<open>None\<close> when it is missing or empty.
\<close>

definition requested_organization :: "request \<Rightarrow> json option" where
  "requested_organization req =
     (case req_body req of
        None \<Rightarrow> None
      | Some b \<Rightarrow>
          (case property_organizationId b of
             Some (Some v) \<Rightarrow> if truthy v then Some v else None
           | _ \<Rightarrow> None))"

definition configured_key :: "env \<Rightarrow> string option" where
  "configured_key e =
     (case SERVICE_ROLE_KEY e of None \<Rightarrow> None | Some k \<Rightarrow> if k = [] then None else Some k)"

subsection \<open>Reading a trace\<close>

fun is_console :: "event \<Rightarrow> bool" where
  "is_console (Console l) = True"
| "is_console ev = False"

definition calls :: "event list \<Rightarrow> event list" where
  "calls tr = filter (\<lambda>ev. \<not> is_console ev) tr"

fun event_client :: "event \<Rightarrow> client option" where
  "event_client (CreateClient c) = Some c"
| "event_client (GetUser c r) = Some c"
| "event_client (SelectRole c uid r) = Some c"
| "event_client (SelectOrg c v r) = Some c"
| "event_client (SelectUsers c v r) = Some c"
| "event_client (DeleteUser c uid r) = Some c"
| "event_client (DeleteOrg c v r) = Some c"
| "event_client (ReadJson b) = None"
| "event_client (Console l) = None"

text \<open>
  A privileged operation: an account deletion, an organization deletion, or the
  construction or any use of a client that was built without the caller's credential
  (the service-role client).
\<close>

fun privileged :: "event \<Rightarrow> bool" where
  "privileged (DeleteUser c uid r) = True"
| "privileged (DeleteOrg c v r) = True"
| "privileged ev =
     (case event_client ev of None \<Rightarrow> False | Some c \<Rightarrow> client_options c = None)"

text \<open>A query to the relational store: every \<open>from(table)\<close> call.\<close>

fun relational_query :: "event \<Rightarrow> bool" where
  "relational_query (SelectRole c uid r) = True"
| "relational_query (SelectOrg c v r) = True"
| "relational_query (SelectUsers c v r) = True"
| "relational_query (DeleteOrg c v r) = True"
| "relational_query ev = False"

text \<open>
  The account deletions a trace holds, in order, whatever their outcome; and the messages
  of those that rejected.
\<close>

fun rejections :: "event list \<Rightarrow> string list" where
  "rejections [] = []"
| "rejections (DeleteUser c uid (Rejected msg) # evs) = msg # rejections evs"
| "rejections (ev # evs) = rejections evs"

fun delete_attempts :: "event list \<Rightarrow> string list" where
  "delete_attempts [] = []"
| "delete_attempts (DeleteUser c uid r # evs) = uid # delete_attempts evs"
| "delete_attempts (ev # evs) = delete_attempts evs"

text \<open>The enumerated profiles that have an account to delete: a non-empty \<open>user_id\<close>.\<close>

fun deletable :: "profile_link list \<Rightarrow> string list" where
  "deletable [] = []"
| "deletable (u # us) =
     (case user_id u of
        None \<Rightarrow> deletable us
      | Some uid \<Rightarrow> if uid = [] then deletable us else uid # deletable us)"

definition has_account :: "profile_link \<Rightarrow> bool" where
  "has_account u = (case user_id u of None \<Rightarrow> False | Some uid \<Rightarrow> uid \<noteq> [])"

text \<open>What the loop of step 7 can add to the trace.\<close>

fun loop_event :: "client \<Rightarrow> event \<Rightarrow> bool" where
  "loop_event c (DeleteUser c' uid r) = (c' = c)"
| "loop_event c (Console (LogDeletingAuthUser uid)) = True"
| "loop_event c (Console (ErrFailedToDeleteAuthUser uid err)) = True"
| "loop_event c ev = False"

definition auth_events :: "client \<Rightarrow> user \<Rightarrow> profile_role option \<Rightarrow> event list" where
  "auth_events c u p = [CreateClient c, GetUser c (Some u), SelectRole c (user_ident u) p]"

definition body_events :: "json \<Rightarrow> event list" where
  "body_events b = [ReadJson (Some b), Console (LogReceivedBody b)]"

definition enumerate_events :: "client \<Rightarrow> json \<Rightarrow> profile_link list reply \<Rightarrow> event list" where
  "enumerate_events c v r =
     SelectUsers c v r #
       (case reply_error r of None \<Rightarrow> [] | Some err \<Rightarrow> [Console (ErrFindingLinkedUsers err)])"

subsection \<open>An in-memory backend\<close>

text \<open>
  Modelled from the spec: the identity provider and the relational store are hosted
  services outside the repository. This backend follows the interfaces of section 6 of
  the specification: \<open>resolveCallerFromToken(token) -> Identity | none\<close>,
  \<open>deleteAccount(userId) -> ok | error\<close>, \<open>selectOne(organizations, id) -> row | none\<close>,
  \<open>selectMany(user_profiles, current_organization_id = id) -> rows\<close> and
  \<open>delete(organizations, id) -> ok | error\<close>. A deletion can be made to fail: an account
  listed in \<open>st_stuck_accounts\<close> is not deleted, and \<open>st_organization_delete_error\<close> is the
  error the organization delete answers with. A credential resolves to its account as
  long as the account exists. Cascades between tables are not modelled.

  Two traits of the client in front of the services are part of it. A single-row select
  (\<open>.single()\<close>) that does not find exactly one row answers with no data and with
  \<open>st_no_row_error\<close>: \<open>None\<close> is the specification's \<open>none\<close>, an error is what the client
  reports for such a result. And \<open>deleteUser\<close> rejects an id that is not a UUID before
  anything is sent.
\<close>

record profile_row =
  pr_user_id :: "string option"
  pr_role :: "string option"
  pr_current_organization_id :: "string option"

record store =
  st_sessions :: "(string \<times> string) list"
  st_accounts :: "string list"
  st_user_profiles :: "profile_row list"
  st_organizations :: "organization list"
  st_stuck_accounts :: "string list"
  st_organization_delete_error :: "backend_error option"
  st_no_row_error :: "backend_error option"

definition is_hex :: "char \<Rightarrow> bool" where
  "is_hex ch = (ch \<in> set ''0123456789abcdefABCDEF'')"

definition is_uuid :: "string \<Rightarrow> bool" where
  "is_uuid s =
     (map (\<lambda>ch. if is_hex ch then CHR ''h'' else if ch = CHR ''-'' then CHR ''-'' else CHR ''?'') s
        = ''hhhhhhhh-hhhh-hhhh-hhhh-hhhhhhhhhhhh'')"

definition mem_getUser :: "client \<Rightarrow> store \<Rightarrow> user option \<times> store" where
  "mem_getUser c w =
     ((case client_options c of
         Some (Some credential) \<Rightarrow>
           (case map_of (st_sessions w) credential of
              Some uid \<Rightarrow> if uid \<in> set (st_accounts w) then Some (User uid) else None
            | None \<Rightarrow> None)
       | _ \<Rightarrow> None), w)"

definition mem_select_role :: "client \<Rightarrow> string \<Rightarrow> store \<Rightarrow> profile_role option \<times> store" where
  "mem_select_role c uid w =
     ((case filter (\<lambda>p. pr_user_id p = Some uid) (st_user_profiles w) of
         [p] \<Rightarrow> Some \<lparr>role = pr_role p\<rparr>
       | _ \<Rightarrow> None), w)"

definition mem_select_organization :: "client \<Rightarrow> json \<Rightarrow> store \<Rightarrow> organization reply \<times> store" where
  "mem_select_organization c v w =
     ((case filter (\<lambda>org. JStr (org_id org) = v) (st_organizations w) of
         [org] \<Rightarrow> \<lparr>reply_data = Some org, reply_error = None\<rparr>
       | _ \<Rightarrow> \<lparr>reply_data = None, reply_error = st_no_row_error w\<rparr>), w)"

text \<open>The rows linked to an organization, and the ids among them the loop will try to delete.\<close>

definition mem_linked :: "store \<Rightarrow> json \<Rightarrow> profile_link list" where
  "mem_linked w v =
     map (\<lambda>p. \<lparr>user_id = pr_user_id p\<rparr>)
       (filter (\<lambda>p. map_option JStr (pr_current_organization_id p) = Some v)
          (st_user_profiles w))"

definition mem_select_linked ::
  "client \<Rightarrow> json \<Rightarrow> store \<Rightarrow> profile_link list reply \<times> store" where
  "mem_select_linked c v w = (\<lparr>reply_data = Some (mem_linked w v), reply_error = None\<rparr>, w)"

definition mem_deleteUser ::
  "client \<Rightarrow> string \<Rightarrow> store \<Rightarrow> backend_error option awaited \<times> store" where
  "mem_deleteUser c uid w =
     (if \<not> is_uuid uid
      then (Rejected ''@supabase/auth-js: Expected parameter to be UUID but is not'', w)
      else if uid \<in> set (st_stuck_accounts w) \<or> uid \<notin> set (st_accounts w)
      then (Answered (Some (BackendError ''User not found'')), w)
      else (Answered None, w\<lparr>st_accounts := removeAll uid (st_accounts w)\<rparr>))"

definition mem_delete_organization ::
  "client \<Rightarrow> json \<Rightarrow> store \<Rightarrow> backend_error option \<times> store" where
  "mem_delete_organization c v w =
     (case st_organization_delete_error w of
        Some err \<Rightarrow> (Some err, w)
      | None \<Rightarrow>
          (None, w\<lparr>st_organizations :=
                     filter (\<lambda>org. JStr (org_id org) \<noteq> v) (st_organizations w)\<rparr>))"

definition mem_backend :: "store backend" where
  "mem_backend =
     \<lparr>auth_getUser = mem_getUser,
      profiles_select_role = mem_select_role,
      organizations_select = mem_select_organization,
      profiles_select_user_id = mem_select_linked,
      auth_admin_deleteUser = mem_deleteUser,
      organizations_delete = mem_delete_organization\<rparr>"

subsection \<open>A deployment and a few requests\<close>

definition demo_env :: env where
  "demo_env =
     \<lparr>SUPABASE_URL = Some ''https://demo.supabase.co'',
      SUPABASE_ANON_KEY = Some ''anon-key'',
      SERVICE_ROLE_KEY = Some ''service-key''\<rparr>"

text \<open>The account ids of the super admin and of two members of \<open>org-1\<close>.\<close>

definition root_id :: string where
  "root_id = ''00000000-0000-4000-8000-000000000000''"

definition u1_id :: string where
  "u1_id = ''00000000-0000-4000-8000-000000000001''"

definition u2_id :: string where
  "u2_id = ''00000000-0000-4000-8000-000000000002''"

definition no_rows :: backend_error where
  "no_rows = BackendError ''JSON object requested, multiple (or no) rows returned''"

definition demo_store :: store where
  "demo_store =
     \<lparr>st_sessions = [(''Bearer root'', root_id), (''Bearer u1'', u1_id)],
      st_accounts = [root_id, u1_id, u2_id],
      st_user_profiles =
        [\<lparr>pr_user_id = Some root_id, pr_role = Some ''super_admin'',
          pr_current_organization_id = None\<rparr>,
         \<lparr>pr_user_id = Some u1_id, pr_role = Some ''owner'',
          pr_current_organization_id = Some ''org-1''\<rparr>,
         \<lparr>pr_user_id = Some u2_id, pr_role = Some ''member'',
          pr_current_organization_id = Some ''org-1''\<rparr>],
      st_organizations = [\<lparr>org_id = ''org-1'', org_name = ''Acme''\<rparr>],
      st_stuck_accounts = [],
      st_organization_delete_error = None,
      st_no_row_error = Some no_rows\<rparr>"

definition delete_org1 :: "string option \<Rightarrow> request" where
  "delete_org1 credential =
     \<lparr>req_method = ''POST'', req_authorization = credential,
      req_body = Some (JObj [(''organizationId'', JStr ''org-1'')])\<rparr>"

definition demo_caller :: client where
  "demo_caller = caller_client demo_env (delete_org1 (Some ''Bearer root''))"

definition demo_admin :: client where
  "demo_admin = admin_client demo_env ''service-key''"

text \<open>
  Variants of the store: a stuck account, a failing organization delete, a profile
  without account, a super admin whose own profile is linked to the organization, a
  linked profile whose id is not a UUID, and the store after \<open>org-1\<close> was deprovisioned.
\<close>

definition demo_store_stuck :: store where
  "demo_store_stuck = demo_store\<lparr>st_stuck_accounts := [u1_id]\<rparr>"

definition demo_store_locked :: store where
  "demo_store_locked =
     demo_store\<lparr>st_organization_delete_error := Some (BackendError ''permission denied'')\<rparr>"

definition demo_store_orphan :: store where
  "demo_store_orphan =
     demo_store\<lparr>st_stuck_accounts := [u1_id],
       st_user_profiles :=
        [\<lparr>pr_user_id = Some root_id, pr_role = Some ''super_admin'',
          pr_current_organization_id = None\<rparr>,
         \<lparr>pr_user_id = Some u1_id, pr_role = Some ''owner'',
          pr_current_organization_id = Some ''org-1''\<rparr>,
         \<lparr>pr_user_id = None, pr_role = Some ''member'',
          pr_current_organization_id = Some ''org-1''\<rparr>]\<rparr>"

definition demo_store_own :: store where
  "demo_store_own =
     demo_store\<lparr>st_user_profiles :=
        [\<lparr>pr_user_id = Some root_id, pr_role = Some ''super_admin'',
          pr_current_organization_id = Some ''org-1''\<rparr>,
         \<lparr>pr_user_id = Some u1_id, pr_role = Some ''owner'',
          pr_current_organization_id = Some ''org-1''\<rparr>]\<rparr>"

definition demo_store_legacy :: store where
  "demo_store_legacy =
     demo_store\<lparr>st_user_profiles :=
        [\<lparr>pr_user_id = Some root_id, pr_role = Some ''super_admin'',
          pr_current_organization_id = None\<rparr>,
         \<lparr>pr_user_id = Some ''legacy-7'', pr_role = Some ''owner'',
          pr_current_organization_id = Some ''org-1''\<rparr>,
         \<lparr>pr_user_id = Some u2_id, pr_role = Some ''member'',
          pr_current_organization_id = Some ''org-1''\<rparr>]\<rparr>"

definition demo_store_after :: store where
  "demo_store_after = demo_store\<lparr>st_accounts := [root_id], st_organizations := []\<rparr>"

definition delete_nothing :: "string option \<Rightarrow> request" where
  "delete_nothing credential =
     \<lparr>req_method = ''POST'', req_authorization = credential, req_body = Some (JObj [])\<rparr>"

section \<open>Properties\<close>

subsection \<open>The steps and the shape of a run\<close>

lemma trace_emit [simp]: "trace (emit ev s) = trace s @ [ev]"
  by (simp add: emit_def)

lemma world_emit [simp]: "world (emit ev s) = world s"
  by (simp add: emit_def)

lemma await_eq:
  "await f ev s = (fst (f (world s)), \<lparr>world = snd (f (world s)), trace = trace s @ [ev (fst (f (world s)))]\<rparr>)"
  by (simp add: await_def split: prod.splits)

lemma delete_attempts_append [simp]:
  "delete_attempts (xs @ ys) = delete_attempts xs @ delete_attempts ys"
  by (induction xs rule: delete_attempts.induct) auto

lemma rejections_append [simp]:
  "rejections (xs @ ys) = rejections xs @ rejections ys"
  by (induction xs rule: rejections.induct) auto

lemma createClient_Inr:
  "createClient url k opts = Inr c \<longleftrightarrow>
     url \<noteq> [] \<and> k \<noteq> [] \<and> c = \<lparr>client_url = url, client_key = k, client_options = opts\<rparr>"
  by (auto simp: createClient_def)

lemma createClient_Inl:
  "createClient url k opts = Inl t \<longleftrightarrow>
     (url = [] \<and> t = ThrowSupabaseUrlRequired) \<or> (url \<noteq> [] \<and> k = [] \<and> t = ThrowSupabaseKeyRequired)"
  by (auto simp: createClient_def)

text \<open>
  The loop: what it appends to the trace are its own events; when it runs to its end
  no call rejected and every deletable profile was tried, in order; when it throws, the
  one rejection is the thrown error and the attempts made are an initial part of the
  deletable profiles.
\<close>

lemma delete_auth_accounts_trace:
  "\<exists>evs. trace (snd (delete_auth_accounts B c us s)) = trace s @ evs \<and>
         list_all (loop_event c) evs \<and>
         (case fst (delete_auth_accounts B c us s) of
            Inr x \<Rightarrow> rejections evs = [] \<and> delete_attempts evs = deletable us
          | Inl t \<Rightarrow> \<exists>msg rest. t = ThrowDeleteUserRejected msg \<and> rejections evs = [msg]
                        \<and> deletable us = delete_attempts evs @ rest)"
proof (induction us arbitrary: s)
  case Nil
  then show ?case by simp
next
  case (Cons u us)
  show ?case
  proof (cases "user_id u")
    case None
    from Cons[of s] obtain evs where
      "trace (snd (delete_auth_accounts B c us s)) = trace s @ evs"
      "list_all (loop_event c) evs"
      "case fst (delete_auth_accounts B c us s) of
         Inr x \<Rightarrow> rejections evs = [] \<and> delete_attempts evs = deletable us
       | Inl t \<Rightarrow> \<exists>msg rest. t = ThrowDeleteUserRejected msg \<and> rejections evs = [msg]
                     \<and> deletable us = delete_attempts evs @ rest"
      by blast
    then show ?thesis
      by (intro exI[of _ evs]) (simp add: None split: sum.splits)
  next
    case (Some uid)
    show ?thesis
    proof (cases "uid = []")
      case True
      from Cons[of s] obtain evs where
        "trace (snd (delete_auth_accounts B c us s)) = trace s @ evs"
        "list_all (loop_event c) evs"
        "case fst (delete_auth_accounts B c us s) of
           Inr x \<Rightarrow> rejections evs = [] \<and> delete_attempts evs = deletable us
         | Inl t \<Rightarrow> \<exists>msg rest. t = ThrowDeleteUserRejected msg \<and> rejections evs = [msg]
                       \<and> deletable us = delete_attempts evs @ rest"
        by blast
      then show ?thesis
        by (intro exI[of _ evs]) (simp add: Some True split: sum.splits)
    next
      case False
      obtain r s1 where a: "await (auth_admin_deleteUser B c uid) (DeleteUser c uid)
                        (emit (Console (LogDeletingAuthUser uid)) s) = (r, s1)"
        by (cases "await (auth_admin_deleteUser B c uid) (DeleteUser c uid)
                        (emit (Console (LogDeletingAuthUser uid)) s)") auto
      have tr: "trace s1 = trace s @ [Console (LogDeletingAuthUser uid), DeleteUser c uid r]"
        using a by (auto simp: await_eq)
      show ?thesis
      proof (cases r)
        case (Rejected msg)
        then have eq: "delete_auth_accounts B c (u # us) s = (Inl (ThrowDeleteUserRejected msg), s1)"
          using Some False a by simp
        show ?thesis unfolding eq
          by (intro exI[of _ "[Console (LogDeletingAuthUser uid), DeleteUser c uid r]"])
             (simp add: tr Rejected Some False)
      next
        case (Answered ans)
        show ?thesis
        proof (cases ans)
          case None
          then have eq: "delete_auth_accounts B c (u # us) s = delete_auth_accounts B c us s1"
            using Some False a Answered by simp
          from Cons[of s1] obtain evs where
            "trace (snd (delete_auth_accounts B c us s1)) = trace s1 @ evs"
            "list_all (loop_event c) evs"
            "case fst (delete_auth_accounts B c us s1) of
               Inr x \<Rightarrow> rejections evs = [] \<and> delete_attempts evs = deletable us
             | Inl t \<Rightarrow> \<exists>msg rest. t = ThrowDeleteUserRejected msg \<and> rejections evs = [msg]
                           \<and> deletable us = delete_attempts evs @ rest"
            by blast
          then show ?thesis unfolding eq
            by (intro exI[of _ "[Console (LogDeletingAuthUser uid), DeleteUser c uid r] @ evs"])
               (auto simp: tr Answered \<open>user_id u = Some uid\<close> False split: sum.splits)
        next
          case (Some err)
          then have eq: "delete_auth_accounts B c (u # us) s =
              delete_auth_accounts B c us (emit (Console (ErrFailedToDeleteAuthUser uid err)) s1)"
            using \<open>user_id u = Some uid\<close> False a Answered by simp
          from Cons[of "emit (Console (ErrFailedToDeleteAuthUser uid err)) s1"] obtain evs where
            "trace (snd (delete_auth_accounts B c us
                (emit (Console (ErrFailedToDeleteAuthUser uid err)) s1)))
               = trace (emit (Console (ErrFailedToDeleteAuthUser uid err)) s1) @ evs"
            "list_all (loop_event c) evs"
            "case fst (delete_auth_accounts B c us
                (emit (Console (ErrFailedToDeleteAuthUser uid err)) s1)) of
               Inr x \<Rightarrow> rejections evs = [] \<and> delete_attempts evs = deletable us
             | Inl t \<Rightarrow> \<exists>msg rest. t = ThrowDeleteUserRejected msg \<and> rejections evs = [msg]
                           \<and> deletable us = delete_attempts evs @ rest"
            by blast
          then show ?thesis unfolding eq
            by (intro exI[of _ "[Console (LogDeletingAuthUser uid), DeleteUser c uid r,
                    Console (ErrFailedToDeleteAuthUser uid err)] @ evs"])
               (auto simp: tr Answered \<open>user_id u = Some uid\<close> False split: sum.splits)
        qed
      qed
    qed
  qed
qed

lemma check_super_admin_refused:
  assumes "\<not> constructible (caller_client e req)"
  shows "check_super_admin B e req s = (Inl ThrowSupabaseUrlRequired, s)
       \<or> check_super_admin B e req s = (Inl ThrowSupabaseKeyRequired, s)"
  using assms
  by (auto simp: check_super_admin_def constructible_def caller_client_def createClient_def)

lemma check_super_admin_denied:
  assumes "constructible (caller_client e req)"
      and "resolved_role B (caller_client e req) (world s) \<noteq> Some ''super_admin''"
  shows "(\<exists>s1. check_super_admin B e req s = (Inl ThrowUnauthorized, s1) \<and>
            trace s1 = trace s @ [CreateClient (caller_client e req),
                                  GetUser (caller_client e req) None])
       \<or> (\<exists>s1 u p. check_super_admin B e req s = (Inl ThrowOnlySuperAdmins, s1) \<and>
            trace s1 = trace s @ [CreateClient (caller_client e req),
                                  GetUser (caller_client e req) (Some u),
                                  SelectRole (caller_client e req) (user_ident u) p])"
  using assms
  by (auto simp: check_super_admin_def resolved_role_def await_def emit_def constructible_def
                 caller_client_def createClient_def
           split: prod.splits option.splits)

lemma check_super_admin_granted:
  assumes "resolved_role B (caller_client e req) (world s) = Some ''super_admin''"
  shows "\<exists>s1 u p. check_super_admin B e req s = (Inr (), s1) \<and>
           role p = Some ''super_admin'' \<and> constructible (caller_client e req) \<and>
           trace s1 = trace s @ [CreateClient (caller_client e req),
                                 GetUser (caller_client e req) (Some u),
                                 SelectRole (caller_client e req) (user_ident u) (Some p)]"
  using assms
  by (auto simp: check_super_admin_def resolved_role_def await_def emit_def constructible_def
                 caller_client_def createClient_def
           split: prod.splits option.splits if_splits)

lemma read_organizationId_rejected:
  assumes "requested_organization req = None"
  shows "(\<exists>s1. read_organizationId req s = (Inl ThrowInvalidRequestBody, s1) \<and>
            trace s1 = trace s @ [ReadJson (req_body req), Console ErrFailedToParseBody])
       \<or> (\<exists>s1 b. read_organizationId req s = (Inl ThrowOrganizationIdRequired, s1) \<and>
            req_body req = Some b \<and>
            trace s1 = trace s @ [ReadJson (Some b), Console (LogReceivedBody b)])"
  using assms
  by (auto simp: read_organizationId_def requested_organization_def Let_def
           split: option.splits if_splits)

lemma read_organizationId_accepted:
  assumes "requested_organization req = Some v"
  shows "\<exists>s1 b. read_organizationId req s = (Inr v, s1) \<and> req_body req = Some b \<and>
           world s1 = world s \<and>
           trace s1 = trace s @ [ReadJson (Some b), Console (LogReceivedBody b)]"
  using assms
  by (auto simp: read_organizationId_def requested_organization_def Let_def
           split: option.splits if_splits)

lemma make_admin_client_missing:
  assumes "configured_key e = None"
  shows "make_admin_client e s = (Inl ThrowServiceKeyMissing, emit (Console ErrServiceKeyMissing) s)"
  using assms by (auto simp: make_admin_client_def configured_key_def split: option.splits if_splits)

lemma make_admin_client_present:
  assumes "configured_key e = Some k" and "constructible (caller_client e req)"
  shows "make_admin_client e s = (Inr (admin_client e k), emit (CreateClient (admin_client e k)) s)"
  using assms
  by (auto simp: make_admin_client_def configured_key_def constructible_def caller_client_def
                 admin_client_def createClient_def split: option.splits if_splits)

lemma find_organization_cases:
  "(\<exists>s1 r err. find_organization B c v s = (Inl (ThrowDatabaseError err), s1) \<and>
       reply_error r = Some err \<and>
       trace s1 = trace s @ [SelectOrg c v r, Console (ErrFetchingOrganization err)])
 \<or> (\<exists>s1 r. find_organization B c v s = (Inl ThrowOrganizationNotFound, s1) \<and>
       reply_error r = None \<and> reply_data r = None \<and>
       trace s1 = trace s @ [SelectOrg c v r, Console (ErrOrganizationNotFound v)])
 \<or> (\<exists>s1 r org. find_organization B c v s = (Inr org, s1) \<and>
       reply_error r = None \<and> reply_data r = Some org \<and>
       trace s1 = trace s @ [SelectOrg c v r, Console (LogDeletingOrganization org)])"
  by (auto simp: find_organization_def await_def split: prod.splits option.splits)

lemma find_linked_users_trace:
  "\<exists>r s1. find_linked_users B c v s = (reply_data r, s1) \<and>
     trace s1 = trace s @ SelectUsers c v r #
        (case reply_error r of None \<Rightarrow> [] | Some err \<Rightarrow> [Console (ErrFindingLinkedUsers err)])"
  by (auto simp: find_linked_users_def await_def split: prod.splits option.splits)

lemma delete_organization_trace:
  "\<exists>res s1. delete_organization B c v s =
       (case res of None \<Rightarrow> Inr () | Some err \<Rightarrow> Inl (ThrowDeleteOrgError err), s1) \<and>
     trace s1 = trace s @ [DeleteOrg c v res]"
  by (auto simp: delete_organization_def await_def split: prod.splits option.splits)

lemma deprovision_try_outcomes:
  fixes B :: "'w backend"
  obtains
    (client_refused) t where
      "deprovision_try B e req \<lparr>world = w, trace = []\<rparr> = (Inl t, \<lparr>world = w, trace = []\<rparr>)"
      "t = ThrowSupabaseUrlRequired \<or> t = ThrowSupabaseKeyRequired"
      "\<not> constructible (caller_client e req)"
      "resolved_role B (caller_client e req) w \<noteq> Some ''super_admin''"
  | (no_user) s where
      "deprovision_try B e req \<lparr>world = w, trace = []\<rparr> = (Inl ThrowUnauthorized, s)"
      "constructible (caller_client e req)"
      "resolved_role B (caller_client e req) w \<noteq> Some ''super_admin''"
      "trace s = [CreateClient (caller_client e req), GetUser (caller_client e req) None]"
  | (not_super_admin) s u p where
      "deprovision_try B e req \<lparr>world = w, trace = []\<rparr> = (Inl ThrowOnlySuperAdmins, s)"
      "constructible (caller_client e req)"
      "resolved_role B (caller_client e req) w \<noteq> Some ''super_admin''"
      "trace s = auth_events (caller_client e req) u p"
  | (invalid_body) s u p where
      "deprovision_try B e req \<lparr>world = w, trace = []\<rparr> = (Inl ThrowInvalidRequestBody, s)"
      "resolved_role B (caller_client e req) w = Some ''super_admin''"
      "requested_organization req = None"
      "trace s = auth_events (caller_client e req) u (Some p)
                 @ [ReadJson (req_body req), Console ErrFailedToParseBody]"
  | (id_required) s u p b where
      "deprovision_try B e req \<lparr>world = w, trace = []\<rparr> = (Inl ThrowOrganizationIdRequired, s)"
      "resolved_role B (caller_client e req) w = Some ''super_admin''"
      "requested_organization req = None"
      "req_body req = Some b"
      "trace s = auth_events (caller_client e req) u (Some p) @ body_events b"
  | (key_missing) s u p b v where
      "deprovision_try B e req \<lparr>world = w, trace = []\<rparr> = (Inl ThrowServiceKeyMissing, s)"
      "resolved_role B (caller_client e req) w = Some ''super_admin''"
      "requested_organization req = Some v"
      "configured_key e = None"
      "trace s = auth_events (caller_client e req) u (Some p) @ body_events b
                 @ [Console ErrServiceKeyMissing]"
  | (lookup_error) s u p b v k r err where
      "deprovision_try B e req \<lparr>world = w, trace = []\<rparr> = (Inl (ThrowDatabaseError err), s)"
      "resolved_role B (caller_client e req) w = Some ''super_admin''"
      "requested_organization req = Some v"
      "configured_key e = Some k"
      "reply_error r = Some err"
      "trace s = auth_events (caller_client e req) u (Some p) @ body_events b
                 @ [CreateClient (admin_client e k), SelectOrg (admin_client e k) v r,
                    Console (ErrFetchingOrganization err)]"
  | (no_row) s u p b v k r where
      "deprovision_try B e req \<lparr>world = w, trace = []\<rparr> = (Inl ThrowOrganizationNotFound, s)"
      "resolved_role B (caller_client e req) w = Some ''super_admin''"
      "requested_organization req = Some v"
      "configured_key e = Some k"
      "reply_error r = None" "reply_data r = None"
      "trace s = auth_events (caller_client e req) u (Some p) @ body_events b
                 @ [CreateClient (admin_client e k), SelectOrg (admin_client e k) v r,
                    Console (ErrOrganizationNotFound v)]"
  | (delete_rejected) s u p b v k r org ru evs msg rest where
      "deprovision_try B e req \<lparr>world = w, trace = []\<rparr> = (Inl (ThrowDeleteUserRejected msg), s)"
      "resolved_role B (caller_client e req) w = Some ''super_admin''"
      "requested_organization req = Some v"
      "configured_key e = Some k"
      "reply_error r = None" "reply_data r = Some org"
      "list_all (loop_event (admin_client e k)) evs"
      "rejections evs = [msg]"
      "deletable (case reply_data ru of None \<Rightarrow> [] | Some us \<Rightarrow> us) = delete_attempts evs @ rest"
      "trace s = auth_events (caller_client e req) u (Some p) @ body_events b
                 @ [CreateClient (admin_client e k), SelectOrg (admin_client e k) v r,
                    Console (LogDeletingOrganization org)]
                 @ enumerate_events (admin_client e k) v ru @ evs"
  | (reached_delete) s u p b v k r org ru evs res where
      "deprovision_try B e req \<lparr>world = w, trace = []\<rparr> =
         (case res of None \<Rightarrow> Inr () | Some err \<Rightarrow> Inl (ThrowDeleteOrgError err), s)"
      "resolved_role B (caller_client e req) w = Some ''super_admin''"
      "requested_organization req = Some v"
      "configured_key e = Some k"
      "reply_error r = None" "reply_data r = Some org"
      "list_all (loop_event (admin_client e k)) evs"
      "rejections evs = []"
      "delete_attempts evs = deletable (case reply_data ru of None \<Rightarrow> [] | Some us \<Rightarrow> us)"
      "trace s = auth_events (caller_client e req) u (Some p) @ body_events b
                 @ [CreateClient (admin_client e k), SelectOrg (admin_client e k) v r,
                    Console (LogDeletingOrganization org)]
                 @ enumerate_events (admin_client e k) v ru @ evs
                 @ [DeleteOrg (admin_client e k) v res]"
proof (cases "resolved_role B (caller_client e req) w = Some ''super_admin''")
  case denied: False
  show ?thesis
  proof (cases "constructible (caller_client e req)")
    case False
    with check_super_admin_refused[of e req B "\<lparr>world = w, trace = []\<rparr>"]
    consider
        (a) "check_super_admin B e req \<lparr>world = w, trace = []\<rparr>
               = (Inl ThrowSupabaseUrlRequired, \<lparr>world = w, trace = []\<rparr>)"
      | (b) "check_super_admin B e req \<lparr>world = w, trace = []\<rparr>
               = (Inl ThrowSupabaseKeyRequired, \<lparr>world = w, trace = []\<rparr>)"
      by blast
    then show ?thesis
    proof cases
      case a
      show ?thesis
        by (rule client_refused[of ThrowSupabaseUrlRequired])
           (simp_all add: deprovision_try_def a denied False)
    next
      case b
      show ?thesis
        by (rule client_refused[of ThrowSupabaseKeyRequired])
           (simp_all add: deprovision_try_def b denied False)
    qed
  next
    case built: True
  with denied check_super_admin_denied[of e req B "\<lparr>world = w, trace = []\<rparr>"]
  consider
      (a) s1 where "check_super_admin B e req \<lparr>world = w, trace = []\<rparr> = (Inl ThrowUnauthorized, s1)"
        "trace s1 = [CreateClient (caller_client e req), GetUser (caller_client e req) None]"
    | (b) s1 u p where "check_super_admin B e req \<lparr>world = w, trace = []\<rparr> = (Inl ThrowOnlySuperAdmins, s1)"
        "trace s1 = auth_events (caller_client e req) u p"
    by (auto simp: auth_events_def)
  then show ?thesis
  proof cases
    case a
    show ?thesis
      by (rule no_user[of s1]) (simp_all add: deprovision_try_def a denied built)
  next
    case b
    show ?thesis
      by (rule not_super_admin[of s1 u p]) (simp_all add: deprovision_try_def b denied built)
  qed
  qed
next
  case granted: True
  with check_super_admin_granted[of B e req "\<lparr>world = w, trace = []\<rparr>"]
  obtain s1 u p where s1: "check_super_admin B e req \<lparr>world = w, trace = []\<rparr> = (Inr (), s1)"
    and p: "role p = Some ''super_admin''"
    and built: "constructible (caller_client e req)"
    and tr1: "trace s1 = auth_events (caller_client e req) u (Some p)"
    by (auto simp: auth_events_def)
  show ?thesis
  proof (cases "requested_organization req")
    case None
    with read_organizationId_rejected[of req s1]
    consider
        (a) s2 where "read_organizationId req s1 = (Inl ThrowInvalidRequestBody, s2)"
          "trace s2 = trace s1 @ [ReadJson (req_body req), Console ErrFailedToParseBody]"
      | (b) s2 b where "read_organizationId req s1 = (Inl ThrowOrganizationIdRequired, s2)"
          "req_body req = Some b" "trace s2 = trace s1 @ body_events b"
      by (auto simp: body_events_def)
    then show ?thesis
    proof cases
      case a
      show ?thesis
        by (rule invalid_body[of s2 u p]) (simp_all add: deprovision_try_def s1 a tr1 granted None)
    next
      case b
      show ?thesis
        by (rule id_required[of s2 b u p]) (simp_all add: deprovision_try_def s1 b tr1 granted None)
    qed
  next
    case (Some v)
    with read_organizationId_accepted[of req v s1]
    obtain s2 b where s2: "read_organizationId req s1 = (Inr v, s2)"
      and b: "req_body req = Some b"
      and tr2: "trace s2 = auth_events (caller_client e req) u (Some p) @ body_events b"
      by (auto simp: tr1 body_events_def)
    show ?thesis
    proof (cases "configured_key e")
      case None
      show ?thesis
        by (rule key_missing[of "emit (Console ErrServiceKeyMissing) s2" v u p b])
           (simp_all add: deprovision_try_def s1 s2 make_admin_client_missing[OF None]
              granted Some None tr2)
    next
      case key: (Some k)
      define c where "c = admin_client e k"
      define s3 where "s3 = emit (CreateClient c) s2"
      have s3: "make_admin_client e s2 = (Inr c, s3)"
        by (simp add: make_admin_client_present[OF key built] c_def s3_def)
      have tr3: "trace s3 = auth_events (caller_client e req) u (Some p) @ body_events b
                   @ [CreateClient c]"
        by (simp add: s3_def tr2)
      from find_organization_cases[of B c v s3]
      consider
          (err) s4 r err where "find_organization B c v s3 = (Inl (ThrowDatabaseError err), s4)"
            "reply_error r = Some err"
            "trace s4 = trace s3 @ [SelectOrg c v r, Console (ErrFetchingOrganization err)]"
        | (none) s4 r where "find_organization B c v s3 = (Inl ThrowOrganizationNotFound, s4)"
            "reply_error r = None" "reply_data r = None"
            "trace s4 = trace s3 @ [SelectOrg c v r, Console (ErrOrganizationNotFound v)]"
        | (found) s4 r org where "find_organization B c v s3 = (Inr org, s4)"
            "reply_error r = None" "reply_data r = Some org"
            "trace s4 = trace s3 @ [SelectOrg c v r, Console (LogDeletingOrganization org)]"
        by blast
      then show ?thesis
      proof cases
        case err
        show ?thesis
          by (rule lookup_error[of err s4 v k r u p b])
             (simp_all add: deprovision_try_def s1 s2 s3 err granted Some key tr3 c_def[symmetric])
      next
        case none
        show ?thesis
          by (rule no_row[of s4 v k r u p b])
             (simp_all add: deprovision_try_def s1 s2 s3 none granted Some key tr3 c_def[symmetric])
      next
        case found
        from find_linked_users_trace[of B c v s4]
        obtain ru s5 where s5: "find_linked_users B c v s4 = (reply_data ru, s5)"
          and tr5: "trace s5 = trace s4 @ enumerate_events c v ru"
          by (auto simp: enumerate_events_def)
        define us where "us = (case reply_data ru of None \<Rightarrow> [] | Some us \<Rightarrow> us)"
        from delete_auth_accounts_trace[of B c us s5]
        obtain evs where tr6: "trace (snd (delete_auth_accounts B c us s5)) = trace s5 @ evs"
          and evs: "list_all (loop_event c) evs"
          and fin: "case fst (delete_auth_accounts B c us s5) of
                      Inr x \<Rightarrow> rejections evs = [] \<and> delete_attempts evs = deletable us
                    | Inl t \<Rightarrow> \<exists>msg rest. t = ThrowDeleteUserRejected msg \<and> rejections evs = [msg]
                                  \<and> deletable us = delete_attempts evs @ rest"
          by blast
        obtain r6 s6 where s6: "delete_auth_accounts B c us s5 = (r6, s6)"
          by (cases "delete_auth_accounts B c us s5") auto
        show ?thesis
        proof (cases r6)
          case (Inl t)
          with fin s6 obtain msg rest where t: "t = ThrowDeleteUserRejected msg"
            and rj: "rejections evs = [msg]" and pre: "deletable us = delete_attempts evs @ rest"
            by auto
          show ?thesis
            by (rule delete_rejected[of msg s6 v k r org evs ru rest u p b])
               (use evs rj pre tr6 in \<open>simp_all add: deprovision_try_def s1 s2 s3 found s5 s6 Inl t
                   tr5 tr3 granted Some key c_def[symmetric] us_def[symmetric]\<close>)
        next
          case (Inr x)
          with fin s6 have rj: "rejections evs = []" and att: "delete_attempts evs = deletable us"
            by auto
          from delete_organization_trace[of B c v s6]
          obtain res s7 where s7: "delete_organization B c v s6 =
                (case res of None \<Rightarrow> Inr () | Some err \<Rightarrow> Inl (ThrowDeleteOrgError err), s7)"
            and tr7: "trace s7 = trace s6 @ [DeleteOrg c v res]"
            by blast
          show ?thesis
            by (rule reached_delete[of res s7 v k r org evs ru u p b])
               (use evs rj att tr6 in \<open>simp_all add: deprovision_try_def s1 s2 s3 found s5 s6 Inr
                   s7 tr7 tr5 tr3 granted Some key c_def[symmetric] us_def[symmetric]\<close>)
        qed
      qed
    qed
  qed
qed


subsection \<open>Facts shared by the claims\<close>

lemma loop_event_excludes:
  assumes "list_all (loop_event c) evs"
  shows "DeleteOrg c' v r \<notin> set evs" "SelectOrg c' v ro \<notin> set evs"
    "SelectUsers c' v ru \<notin> set evs" "CreateClient c' \<notin> set evs" "ReadJson b \<notin> set evs"
    "GetUser c' gu \<notin> set evs" "SelectRole c' uid rr \<notin> set evs"
    "filter relational_query evs = []"
  using assms by (induction evs; auto simp: list_all_iff elim: loop_event.elims)+

lemma status_failure_response [simp]: "status (failure_response m) = 400"
  by (simp add: failure_response_def)

lemma status_success_response [simp]: "status success_response = 200"
  by (simp add: success_response_def)

lemma failure_is_not_success [simp]: "failure_response m \<noteq> success_response"
  by (simp add: failure_response_def success_response_def)

lemma failure_response_inject [simp]: "failure_response m = failure_response m' \<longleftrightarrow> m = m'"
  by (simp add: failure_response_def)

lemma deletable_all: "list_all has_account us \<Longrightarrow> length (deletable us) = length us"
  by (induction us) (auto simp: has_account_def split: option.splits)

lemma check_super_admin_body:
  "check_super_admin B e (req\<lparr>req_body := b\<rparr>) s = check_super_admin B e req s"
  by (simp add: check_super_admin_def)

lemma caller_client_body: "caller_client e (req\<lparr>req_body := b\<rparr>) = caller_client e req"
  by (simp add: caller_client_def)

lemmas shape_defs = auth_events_def body_events_def enumerate_events_def

lemmas model_defs = deprovision_def deprovision_try_def check_super_admin_def
  read_organizationId_def make_admin_client_def find_organization_def find_linked_users_def
  delete_organization_def await_def emit_def caller_client_def admin_client_def createClient_def
  constructible_def or_empty_def Let_def

lemmas mem_defs = mem_backend_def mem_getUser_def mem_select_role_def
  mem_select_organization_def mem_select_linked_def mem_linked_def mem_deleteUser_def
  mem_delete_organization_def is_uuid_def is_hex_def

lemmas demo_defs = demo_env_def demo_store_def delete_org1_def delete_nothing_def
  demo_caller_def demo_admin_def demo_store_stuck_def demo_store_locked_def
  demo_store_orphan_def demo_store_own_def demo_store_legacy_def demo_store_after_def
  root_id_def u1_id_def u2_id_def no_rows_def

text \<open>
  The preflight answer never touches the backend; every other request is the workflow.
  The statements below are about the workflow, \<open>deprovision\<close>.
\<close>

lemma handler_preflight:
  "req_method req = ''OPTIONS'' \<Longrightarrow>
     handler B e req w = (preflight_response, \<lparr>world = w, trace = []\<rparr>)"
  by (simp add: handler_def)

lemma handler_workflow:
  "req_method req \<noteq> ''OPTIONS'' \<Longrightarrow> handler B e req w = deprovision B e req w"
  by (simp add: handler_def)

text \<open>
  When \<open>SUPABASE_URL\<close> or \<open>SUPABASE_ANON_KEY\<close> is unset, \<open>createClient\<close> throws before
  anything is asked of the backend: the answer is the failure envelope with the client's
  message, and the trace holds the console line of the \<open>catch\<close> and nothing else.
\<close>

lemma resolved_role_constructible:
  "resolved_role B c w = Some r \<Longrightarrow> constructible c"
  by (simp add: resolved_role_def split: if_splits)

lemma unconstructible_client_is_refused:
  assumes "\<not> constructible (caller_client e req)"
  shows "(fst (deprovision B e req w) = failure_response ''supabaseUrl is required.''
          \<or> fst (deprovision B e req w) = failure_response ''supabaseKey is required.'')
       \<and> failure_kind B e req w = Some Unclassified
       \<and> calls (trace (snd (deprovision B e req w))) = []
       \<and> world (snd (deprovision B e req w)) = w"
  by (rule deprovision_try_outcomes[of B e req w];
      use assms in \<open>auto simp: deprovision_def failure_kind_def calls_def
                      dest: resolved_role_constructible\<close>)

text \<open>
  When a \<open>deleteUser\<close> call rejects, the loop is left at that call: the rejection is the
  error thrown, the organization delete is not issued, and the answer is the failure
  envelope with the rejection's message.
\<close>

lemma rejection_in_rejections:
  "DeleteUser c uid (Rejected msg) \<in> set evs \<Longrightarrow> msg \<in> set (rejections evs)"
  by (induction evs rule: rejections.induct) auto

lemma rejected_deletion_ends_the_run:
  assumes "DeleteUser c uid (Rejected msg) \<in> set (trace (snd (deprovision B e req w)))"
  shows "fst (deprovision B e req w) = failure_response msg
       \<and> failure_kind B e req w = Some Unclassified
       \<and> (\<forall>c' v res. DeleteOrg c' v res \<notin> set (trace (snd (deprovision B e req w))))"
  by (rule deprovision_try_outcomes[of B e req w];
      use assms in \<open>auto simp: deprovision_def failure_kind_def shape_defs loop_event_excludes
                      split: option.splits dest: rejection_in_rejections\<close>)

subsection \<open>Authorization comes first\<close>

text \<open>
  C1. A request whose credential resolves to no identity, or whose resolved role is
  absent or is not \<open>super_admin\<close>, fails with \<open>Unauthorized\<close> (HTTP 400, one of the two
  \<open>Unauthorized\<close> messages) and performs no privileged operation: the trace holds no
  event of a client built without the caller's credential, no account deletion and no
  organization deletion, and the only client ever constructed is the caller-scoped one.
  A credential is resolved through the caller-scoped client, so the statement is about
  the deployments where that client can be built (\<open>SUPABASE_URL\<close> and
  \<open>SUPABASE_ANON_KEY\<close> are set).
\<close>

theorem unauthorized_caller_performs_no_privileged_operation:
  assumes "constructible (caller_client e req)"
      and "resolved_role B (caller_client e req) w \<noteq> Some ''super_admin''"
  shows "failure_kind B e req w = Some Unauthorized
       \<and> (fst (deprovision B e req w) = failure_response ''Unauthorized''
          \<or> fst (deprovision B e req w) =
               failure_response ''Unauthorized: Only Super Admins can perform this action'')
       \<and> status (fst (deprovision B e req w)) = 400
       \<and> filter privileged (trace (snd (deprovision B e req w))) = []
       \<and> delete_attempts (trace (snd (deprovision B e req w))) = []
       \<and> (\<forall>c. CreateClient c \<in> set (trace (snd (deprovision B e req w)))
              \<longrightarrow> c = caller_client e req)"
  by (rule deprovision_try_outcomes[of B e req w];
      use assms in \<open>auto simp: deprovision_def failure_kind_def shape_defs caller_client_def\<close>)

theorem unauthorized_caller_performs_no_privileged_operation_witness:
  "constructible (caller_client demo_env (delete_org1 (Some ''Bearer u1'')))
   \<and> resolved_role mem_backend (caller_client demo_env (delete_org1 (Some ''Bearer u1''))) demo_store
     = Some ''owner''
   \<and> failure_kind mem_backend demo_env (delete_org1 (Some ''Bearer u1'')) demo_store
       = Some Unauthorized
   \<and> status (fst (deprovision mem_backend demo_env (delete_org1 (Some ''Bearer u1'')) demo_store))
       = 400
   \<and> filter privileged
        (trace (snd (deprovision mem_backend demo_env (delete_org1 (Some ''Bearer u1'')) demo_store)))
       = []"
proof -
  have c: "constructible (caller_client demo_env (delete_org1 (Some ''Bearer u1'')))"
    by (simp add: model_defs demo_defs)
  have r: "resolved_role mem_backend (caller_client demo_env (delete_org1 (Some ''Bearer u1'')))
             demo_store = Some ''owner''"
    by (simp add: resolved_role_def model_defs mem_defs demo_defs)
  then have h: "resolved_role mem_backend (caller_client demo_env (delete_org1 (Some ''Bearer u1'')))
             demo_store \<noteq> Some ''super_admin''"
    by simp
  from unauthorized_caller_performs_no_privileged_operation[OF c h] c r show ?thesis
    by blast
qed

text \<open>
  C9. Authentication and authorization are decided before the body is read: for an
  unauthenticated or under-privileged caller the result is \<open>Unauthorized\<close>, never
  \<open>InvalidRequest\<close>; \<open>req.json()\<close> is not called; and the whole outcome (response, backend
  state and trace) is the same whatever the body is, parseable or not. As in C1, the
  caller is one whose credential the caller-scoped client can be asked about.
\<close>

theorem authorization_precedes_body:
  assumes "constructible (caller_client e req)"
      and "resolved_role B (caller_client e req) w \<noteq> Some ''super_admin''"
  shows "failure_kind B e req w = Some Unauthorized
       \<and> failure_kind B e req w \<noteq> Some InvalidRequest
       \<and> (\<forall>b. ReadJson b \<notin> set (trace (snd (deprovision B e req w))))
       \<and> (\<forall>b. deprovision B e (req\<lparr>req_body := b\<rparr>) w = deprovision B e req w)"
proof -
  have a: "failure_kind B e req w = Some Unauthorized
         \<and> (\<forall>b. ReadJson b \<notin> set (trace (snd (deprovision B e req w))))"
    by (rule deprovision_try_outcomes[of B e req w];
        use assms in \<open>auto simp: deprovision_def failure_kind_def shape_defs\<close>)
  have "\<exists>t s. check_super_admin B e req \<lparr>world = w, trace = []\<rparr> = (Inl t, s)"
    using check_super_admin_denied[of e req B "\<lparr>world = w, trace = []\<rparr>"] assms by auto
  then have "deprovision_try B e (req\<lparr>req_body := b\<rparr>) \<lparr>world = w, trace = []\<rparr>
           = deprovision_try B e req \<lparr>world = w, trace = []\<rparr>" for b
    by (auto simp: deprovision_try_def check_super_admin_body)
  then have "deprovision B e (req\<lparr>req_body := b\<rparr>) w = deprovision B e req w" for b
    by (simp add: deprovision_def)
  with a show ?thesis by simp
qed

theorem authorization_precedes_body_witness:
  "constructible (caller_client demo_env (delete_nothing None))
   \<and> resolved_role mem_backend (caller_client demo_env (delete_nothing None)) demo_store = None
   \<and> requested_organization (delete_nothing None) = None
   \<and> failure_kind mem_backend demo_env (delete_nothing None) demo_store = Some Unauthorized
   \<and> deprovision mem_backend demo_env ((delete_nothing None)\<lparr>req_body := None\<rparr>) demo_store
       = deprovision mem_backend demo_env (delete_nothing None) demo_store"
proof -
  have c: "constructible (caller_client demo_env (delete_nothing None))"
    by (simp add: model_defs demo_defs)
  have r: "resolved_role mem_backend (caller_client demo_env (delete_nothing None)) demo_store
             = None"
    by (simp add: resolved_role_def model_defs mem_defs demo_defs)
  then have h: "resolved_role mem_backend (caller_client demo_env (delete_nothing None)) demo_store
             \<noteq> Some ''super_admin''"
    by simp
  have b: "requested_organization (delete_nothing None) = None"
    by (simp add: requested_organization_def demo_defs)
  from authorization_precedes_body[OF c h] c r b show ?thesis
    by blast
qed

subsection \<open>Input validation\<close>

text \<open>
  C6, as stated: a request of a super admin with a missing or empty \<open>organizationId\<close>
  fails with \<open>InvalidRequest\<close> before any data-store access, no relational-store query
  being issued. The handler reads the caller's role from \<open>user_profiles\<close> before it reads
  the body, so one relational-store query is always issued: here for a super admin who
  sends the body \<open>{}\<close>.
\<close>

theorem role_lookup_precedes_validation_counterexample:
  "resolved_role mem_backend (caller_client demo_env (delete_nothing (Some ''Bearer root'')))
     demo_store = Some ''super_admin''
   \<and> requested_organization (delete_nothing (Some ''Bearer root'')) = None
   \<and> failure_kind mem_backend demo_env (delete_nothing (Some ''Bearer root'')) demo_store
       = Some InvalidRequest
   \<and> filter relational_query
        (trace (snd (deprovision mem_backend demo_env (delete_nothing (Some ''Bearer root''))
                       demo_store)))
       = [SelectRole demo_caller root_id (Some \<lparr>role = Some ''super_admin''\<rparr>)]
   \<and> filter relational_query
        (trace (snd (deprovision mem_backend demo_env (delete_nothing (Some ''Bearer root''))
                       demo_store)))
       \<noteq> []"
  by (simp add: resolved_role_def requested_organization_def failure_kind_def
        model_defs mem_defs demo_defs)

text \<open>
  C6, amended: a request of a super admin with a missing or empty \<open>organizationId\<close> (or
  an unparseable body) fails with \<open>InvalidRequest\<close> before any privileged access: no
  privileged operation is performed, and the only relational-store query issued is the
  caller-scoped role lookup of the authorization step.
\<close>

theorem missing_organization_id_rejected_before_privileged_access:
  assumes "resolved_role B (caller_client e req) w = Some ''super_admin''"
      and "requested_organization req = None"
  shows "failure_kind B e req w = Some InvalidRequest
       \<and> (fst (deprovision B e req w) = failure_response ''Invalid request body''
          \<or> fst (deprovision B e req w) = failure_response ''Organization ID is required'')
       \<and> filter privileged (trace (snd (deprovision B e req w))) = []
       \<and> (\<exists>u p. filter relational_query (trace (snd (deprovision B e req w)))
                  = [SelectRole (caller_client e req) (user_ident u) (Some p)])"
  by (rule deprovision_try_outcomes[of B e req w];
      use assms in \<open>auto simp: deprovision_def failure_kind_def shape_defs caller_client_def\<close>)

theorem missing_organization_id_rejected_before_privileged_access_witness:
  "resolved_role mem_backend
     (caller_client demo_env ((delete_org1 (Some ''Bearer root''))
        \<lparr>req_body := Some (JObj [(''organizationId'', JStr [])])\<rparr>)) demo_store
     = Some ''super_admin''
   \<and> requested_organization ((delete_org1 (Some ''Bearer root''))
        \<lparr>req_body := Some (JObj [(''organizationId'', JStr [])])\<rparr>) = None
   \<and> failure_kind mem_backend demo_env ((delete_org1 (Some ''Bearer root''))
        \<lparr>req_body := Some (JObj [(''organizationId'', JStr [])])\<rparr>) demo_store
       = Some InvalidRequest
   \<and> filter privileged
        (trace (snd (deprovision mem_backend demo_env ((delete_org1 (Some ''Bearer root''))
           \<lparr>req_body := Some (JObj [(''organizationId'', JStr [])])\<rparr>) demo_store)))
       = []"
proof -
  have r: "resolved_role mem_backend
     (caller_client demo_env ((delete_org1 (Some ''Bearer root''))
        \<lparr>req_body := Some (JObj [(''organizationId'', JStr [])])\<rparr>)) demo_store
     = Some ''super_admin''"
    by (simp add: resolved_role_def model_defs mem_defs demo_defs)
  have b: "requested_organization ((delete_org1 (Some ''Bearer root''))
        \<lparr>req_body := Some (JObj [(''organizationId'', JStr [])])\<rparr>) = None"
    by (simp add: requested_organization_def demo_defs)
  from missing_organization_id_rejected_before_privileged_access[OF r b] r b show ?thesis
    by blast
qed

subsection \<open>Resolving the organization\<close>

text \<open>
  C7. When the organization lookup of an invocation errors or finds no row, the
  invocation fails with \<open>NotFound\<close>: HTTP 400 with the message \<open>Database Error: \<close> followed
  by the lookup's error message, or \<open>Organization not found\<close>. An invocation that issues
  the lookup is one of an authorized super admin who named a non-empty organization id
  (both are consequences here, not assumptions).
\<close>

theorem lookup_failure_is_not_found:
  assumes "SelectOrg c v r \<in> set (trace (snd (deprovision B e req w)))"
      and "reply_error r \<noteq> None \<or> reply_data r = None"
  shows "failure_kind B e req w = Some NotFound
       \<and> fst (deprovision B e req w) =
           failure_response (case reply_error r of
                               Some err \<Rightarrow> ''Database Error: '' @ error_message err
                             | None \<Rightarrow> ''Organization not found'')
       \<and> status (fst (deprovision B e req w)) = 400
       \<and> resolved_role B (caller_client e req) w = Some ''super_admin''
       \<and> requested_organization req = Some v"
  by (rule deprovision_try_outcomes[of B e req w];
      use assms in \<open>auto simp: deprovision_def failure_kind_def shape_defs loop_event_excludes
                      split: option.splits\<close>)

theorem lookup_failure_is_not_found_witness:
  "SelectOrg demo_admin (JStr ''org-1'') \<lparr>reply_data = None, reply_error = Some no_rows\<rparr>
     \<in> set (trace (snd (deprovision mem_backend demo_env (delete_org1 (Some ''Bearer root''))
                          demo_store_after)))
   \<and> SelectOrg demo_admin (JStr ''org-1'') \<lparr>reply_data = None, reply_error = None\<rparr>
     \<in> set (trace (snd (deprovision mem_backend demo_env (delete_org1 (Some ''Bearer root''))
                          (demo_store_after\<lparr>st_no_row_error := None\<rparr>))))
   \<and> fst (deprovision mem_backend demo_env (delete_org1 (Some ''Bearer root''))
            (demo_store_after\<lparr>st_no_row_error := None\<rparr>))
       = failure_response ''Organization not found''
   \<and> failure_kind mem_backend demo_env (delete_org1 (Some ''Bearer root'')) demo_store_after
       = Some NotFound
   \<and> fst (deprovision mem_backend demo_env (delete_org1 (Some ''Bearer root'')) demo_store_after)
       = failure_response
           ''Database Error: JSON object requested, multiple (or no) rows returned''"
proof -
  have h: "SelectOrg demo_admin (JStr ''org-1'') \<lparr>reply_data = None, reply_error = Some no_rows\<rparr>
     \<in> set (trace (snd (deprovision mem_backend demo_env (delete_org1 (Some ''Bearer root''))
                          demo_store_after)))"
    by (simp add: model_defs mem_defs demo_defs)
  have n: "reply_error \<lparr>reply_data = (None :: organization option), reply_error = Some no_rows\<rparr>
             \<noteq> None
         \<or> reply_data \<lparr>reply_data = (None :: organization option), reply_error = Some no_rows\<rparr>
             = None"
    by simp
  have h': "SelectOrg demo_admin (JStr ''org-1'') \<lparr>reply_data = None, reply_error = None\<rparr>
     \<in> set (trace (snd (deprovision mem_backend demo_env (delete_org1 (Some ''Bearer root''))
                          (demo_store_after\<lparr>st_no_row_error := None\<rparr>))))"
    by (simp add: model_defs mem_defs demo_defs)
  have n': "reply_error \<lparr>reply_data = (None :: organization option), reply_error = None\<rparr> \<noteq> None
         \<or> reply_data \<lparr>reply_data = (None :: organization option), reply_error = None\<rparr> = None"
    by simp
  from lookup_failure_is_not_found[OF h n] lookup_failure_is_not_found[OF h' n'] h h'
  show ?thesis
    by (simp add: no_rows_def)
qed

subsection \<open>The account purge and the final delete\<close>

text \<open>
  C2, as stated: with N enumerated linked profiles, all N deletion attempts are issued
  even when one fails. The loop skips a profile whose \<open>user_id\<close> is null or empty, so
  the number of attempts can be smaller than N: here two profiles are enumerated, the
  deletion of the first account fails, and one attempt is issued, not two.
\<close>

theorem profile_without_account_counterexample:
  "SelectUsers demo_admin (JStr ''org-1'')
       \<lparr>reply_data = Some [\<lparr>user_id = Some u1_id\<rparr>, \<lparr>user_id = None\<rparr>], reply_error = None\<rparr>
     \<in> set (trace (snd (deprovision mem_backend demo_env (delete_org1 (Some ''Bearer root''))
                          demo_store_orphan)))
   \<and> DeleteUser demo_admin u1_id (Answered (Some (BackendError ''User not found'')))
     \<in> set (trace (snd (deprovision mem_backend demo_env (delete_org1 (Some ''Bearer root''))
                          demo_store_orphan)))
   \<and> length [\<lparr>user_id = Some u1_id\<rparr>, \<lparr>user_id = None\<rparr>] = 2
   \<and> length (delete_attempts
        (trace (snd (deprovision mem_backend demo_env (delete_org1 (Some ''Bearer root''))
                       demo_store_orphan)))) = 1"
  by (simp add: model_defs mem_defs demo_defs)

text \<open>
  C2, amended: once the linked profiles are enumerated, one deletion attempt is issued for
  every enumerated profile with a non-empty \<open>user_id\<close>, in order and whatever error the
  other attempts answer with (so N attempts when all N profiles have one); the
  organization delete is still attempted; and the response is decided by the organization
  delete alone: success when it succeeds, otherwise the failure envelope with its error
  message. No error an account deletion answers with enters the response. The statement is
  about the invocations in which no \<open>deleteUser\<close> call rejects; what happens when one does
  (\<open>rejected_deletion_ends_the_run\<close>) is left out of it.
\<close>

theorem account_purge_is_best_effort:
  assumes "SelectUsers c v ru \<in> set (trace (snd (deprovision B e req w)))"
      and "rejections (trace (snd (deprovision B e req w))) = []"
  shows "delete_attempts (trace (snd (deprovision B e req w)))
           = deletable (case reply_data ru of None \<Rightarrow> [] | Some us \<Rightarrow> us)
       \<and> (\<forall>us. reply_data ru = Some us \<and> list_all has_account us \<longrightarrow>
             length (delete_attempts (trace (snd (deprovision B e req w)))) = length us)
       \<and> (\<exists>res. DeleteOrg c v res \<in> set (trace (snd (deprovision B e req w)))
             \<and> fst (deprovision B e req w) =
                 (case res of None \<Rightarrow> success_response
                            | Some err \<Rightarrow> failure_response (error_message err)))"
  by (rule deprovision_try_outcomes[of B e req w];
      use assms in \<open>auto simp: deprovision_def failure_kind_def shape_defs loop_event_excludes
                      deletable_all split: option.splits\<close>)

theorem account_purge_is_best_effort_witness:
  "SelectUsers demo_admin (JStr ''org-1'')
       \<lparr>reply_data = Some [\<lparr>user_id = Some u1_id\<rparr>, \<lparr>user_id = Some u2_id\<rparr>], reply_error = None\<rparr>
     \<in> set (trace (snd (deprovision mem_backend demo_env (delete_org1 (Some ''Bearer root''))
                          demo_store_stuck)))
   \<and> DeleteUser demo_admin u1_id (Answered (Some (BackendError ''User not found'')))
     \<in> set (trace (snd (deprovision mem_backend demo_env (delete_org1 (Some ''Bearer root''))
                          demo_store_stuck)))
   \<and> rejections
        (trace (snd (deprovision mem_backend demo_env (delete_org1 (Some ''Bearer root''))
                       demo_store_stuck))) = []
   \<and> delete_attempts
        (trace (snd (deprovision mem_backend demo_env (delete_org1 (Some ''Bearer root''))
                       demo_store_stuck))) = [u1_id, u2_id]
   \<and> DeleteOrg demo_admin (JStr ''org-1'') None
     \<in> set (trace (snd (deprovision mem_backend demo_env (delete_org1 (Some ''Bearer root''))
                          demo_store_stuck)))
   \<and> fst (deprovision mem_backend demo_env (delete_org1 (Some ''Bearer root'')) demo_store_stuck)
       = success_response"
proof -
  have h: "SelectUsers demo_admin (JStr ''org-1'')
       \<lparr>reply_data = Some [\<lparr>user_id = Some u1_id\<rparr>, \<lparr>user_id = Some u2_id\<rparr>], reply_error = None\<rparr>
     \<in> set (trace (snd (deprovision mem_backend demo_env (delete_org1 (Some ''Bearer root''))
                          demo_store_stuck)))"
    by (simp add: model_defs mem_defs demo_defs)
  have f: "DeleteUser demo_admin u1_id (Answered (Some (BackendError ''User not found'')))
     \<in> set (trace (snd (deprovision mem_backend demo_env (delete_org1 (Some ''Bearer root''))
                          demo_store_stuck)))"
    by (simp add: model_defs mem_defs demo_defs)
  have d: "DeleteOrg demo_admin (JStr ''org-1'') None
     \<in> set (trace (snd (deprovision mem_backend demo_env (delete_org1 (Some ''Bearer root''))
                          demo_store_stuck)))"
    by (simp add: model_defs mem_defs demo_defs)
  have s: "fst (deprovision mem_backend demo_env (delete_org1 (Some ''Bearer root''))
                  demo_store_stuck) = success_response"
    by (simp add: model_defs mem_defs demo_defs)
  have n: "rejections
        (trace (snd (deprovision mem_backend demo_env (delete_org1 (Some ''Bearer root''))
                       demo_store_stuck))) = []"
    by (simp add: model_defs mem_defs demo_defs)
  from account_purge_is_best_effort[OF h n]
  have "delete_attempts
        (trace (snd (deprovision mem_backend demo_env (delete_org1 (Some ''Bearer root''))
                       demo_store_stuck))) = [u1_id, u2_id]"
    by (simp add: u1_id_def u2_id_def)
  with h f d s n show ?thesis by simp
qed



text \<open>
  C4. The end-to-end scenario: the caller's role is \<open>super_admin\<close>, the body names
  \<open>org-1\<close>, the lookup finds the organization, exactly two profiles \<open>u1\<close> and \<open>u2\<close> with
  non-empty ids are enumerated, both account deletions succeed and the organization delete
  succeeds. Then the response is HTTP 200 with the body
  \<open>{ message: "Organization and associated accounts deleted successfully" }\<close>, and the
  deletions attempted are exactly those of \<open>u1\<close> and \<open>u2\<close>.
\<close>

theorem end_to_end_success:
  assumes "resolved_role B (caller_client e req) w = Some ''super_admin''"
      and "requested_organization req = Some (JStr ''org-1'')"
      and "SelectOrg c (JStr ''org-1'') ro \<in> set (trace (snd (deprovision B e req w)))"
      and "reply_data ro = Some org" "reply_error ro = None"
      and "SelectUsers c (JStr ''org-1'') ru \<in> set (trace (snd (deprovision B e req w)))"
      and "reply_data ru = Some [\<lparr>user_id = Some u1\<rparr>, \<lparr>user_id = Some u2\<rparr>]"
      and "u1 \<noteq> []" "u2 \<noteq> []"
      and "DeleteUser c u1 (Answered None) \<in> set (trace (snd (deprovision B e req w)))"
      and "DeleteUser c u2 (Answered None) \<in> set (trace (snd (deprovision B e req w)))"
      and "DeleteOrg c (JStr ''org-1'') None \<in> set (trace (snd (deprovision B e req w)))"
  shows "fst (deprovision B e req w) =
           \<lparr>status = 200,
            headers = [(''Access-Control-Allow-Origin'', ''*''),
                       (''Access-Control-Allow-Headers'',
                        ''authorization, x-client-info, apikey, content-type''),
                       (''Content-Type'', ''application/json'')],
            body = JsonBody (JObj [(''message'',
                     JStr ''Organization and associated accounts deleted successfully'')])\<rparr>
       \<and> failure_kind B e req w = None
       \<and> delete_attempts (trace (snd (deprovision B e req w))) = [u1, u2]"
  by (rule deprovision_try_outcomes[of B e req w];
      use assms in \<open>auto simp: deprovision_def failure_kind_def shape_defs loop_event_excludes
                      success_response_def corsHeaders_def split: option.splits\<close>)

theorem end_to_end_success_witness:
  "resolved_role mem_backend (caller_client demo_env (delete_org1 (Some ''Bearer root''))) demo_store
     = Some ''super_admin''
   \<and> requested_organization (delete_org1 (Some ''Bearer root'')) = Some (JStr ''org-1'')
   \<and> calls (trace (snd (deprovision mem_backend demo_env (delete_org1 (Some ''Bearer root''))
                           demo_store)))
       = [CreateClient demo_caller,
          GetUser demo_caller (Some (User root_id)),
          SelectRole demo_caller root_id (Some \<lparr>role = Some ''super_admin''\<rparr>),
          ReadJson (Some (JObj [(''organizationId'', JStr ''org-1'')])),
          CreateClient demo_admin,
          SelectOrg demo_admin (JStr ''org-1'')
            \<lparr>reply_data = Some \<lparr>org_id = ''org-1'', org_name = ''Acme''\<rparr>, reply_error = None\<rparr>,
          SelectUsers demo_admin (JStr ''org-1'')
            \<lparr>reply_data = Some [\<lparr>user_id = Some u1_id\<rparr>, \<lparr>user_id = Some u2_id\<rparr>],
             reply_error = None\<rparr>,
          DeleteUser demo_admin u1_id (Answered None),
          DeleteUser demo_admin u2_id (Answered None),
          DeleteOrg demo_admin (JStr ''org-1'') None]
   \<and> status (fst (deprovision mem_backend demo_env (delete_org1 (Some ''Bearer root'')) demo_store))
       = 200
   \<and> body (fst (deprovision mem_backend demo_env (delete_org1 (Some ''Bearer root'')) demo_store))
       = JsonBody (JObj [(''message'',
           JStr ''Organization and associated accounts deleted successfully'')])"
proof -
  have r: "resolved_role mem_backend (caller_client demo_env (delete_org1 (Some ''Bearer root'')))
             demo_store = Some ''super_admin''"
    by (simp add: resolved_role_def model_defs mem_defs demo_defs)
  have b: "requested_organization (delete_org1 (Some ''Bearer root'')) = Some (JStr ''org-1'')"
    by (simp add: requested_organization_def demo_defs)
  have t: "calls (trace (snd (deprovision mem_backend demo_env (delete_org1 (Some ''Bearer root''))
                           demo_store)))
       = [CreateClient demo_caller,
          GetUser demo_caller (Some (User root_id)),
          SelectRole demo_caller root_id (Some \<lparr>role = Some ''super_admin''\<rparr>),
          ReadJson (Some (JObj [(''organizationId'', JStr ''org-1'')])),
          CreateClient demo_admin,
          SelectOrg demo_admin (JStr ''org-1'')
            \<lparr>reply_data = Some \<lparr>org_id = ''org-1'', org_name = ''Acme''\<rparr>, reply_error = None\<rparr>,
          SelectUsers demo_admin (JStr ''org-1'')
            \<lparr>reply_data = Some [\<lparr>user_id = Some u1_id\<rparr>, \<lparr>user_id = Some u2_id\<rparr>],
             reply_error = None\<rparr>,
          DeleteUser demo_admin u1_id (Answered None),
          DeleteUser demo_admin u2_id (Answered None),
          DeleteOrg demo_admin (JStr ''org-1'') None]"
    by (simp add: calls_def model_defs mem_defs demo_defs)
  have m: "ev \<in> set (calls tr) \<Longrightarrow> ev \<in> set tr" for ev tr
    by (simp add: calls_def)
  have "fst (deprovision mem_backend demo_env (delete_org1 (Some ''Bearer root'')) demo_store) =
           \<lparr>status = 200,
            headers = [(''Access-Control-Allow-Origin'', ''*''),
                       (''Access-Control-Allow-Headers'',
                        ''authorization, x-client-info, apikey, content-type''),
                       (''Content-Type'', ''application/json'')],
            body = JsonBody (JObj [(''message'',
                     JStr ''Organization and associated accounts deleted successfully'')])\<rparr>"
    using end_to_end_success[of mem_backend demo_env "delete_org1 (Some ''Bearer root'')"
            demo_store demo_admin
            "\<lparr>reply_data = Some \<lparr>org_id = ''org-1'', org_name = ''Acme''\<rparr>, reply_error = None\<rparr>"
            "\<lparr>org_id = ''org-1'', org_name = ''Acme''\<rparr>"
            "\<lparr>reply_data = Some [\<lparr>user_id = Some u1_id\<rparr>, \<lparr>user_id = Some u2_id\<rparr>],
              reply_error = None\<rparr>" u1_id u2_id, OF r b]
    by (simp add: m t u1_id_def u2_id_def)
  with r b t show ?thesis by simp
qed

subsection \<open>The failure envelope\<close>

text \<open>
  C5. Every failing invocation, whatever the kind it fails with, is answered with HTTP
  status 400 and a JSON body made of a string field \<open>error\<close> and a string field
  \<open>details\<close>. The response is the failure envelope of the thrown error's message, so the
  status code is the same for every kind and only the message tells failures apart.
\<close>

theorem failure_envelope_is_uniform:
  assumes "failure_kind B e req w = Some k"
  shows "status (fst (deprovision B e req w)) = 400
       \<and> (\<exists>msg details. body (fst (deprovision B e req w)) =
             JsonBody (JObj [(''error'', JStr msg), (''details'', JStr details)]))
       \<and> (\<exists>t. fst (deprovision_try B e req \<lparr>world = w, trace = []\<rparr>) = Inl t \<and> kind_of t = k
             \<and> fst (deprovision B e req w) = failure_response (thrown_message t))"
  using assms
  by (auto simp: deprovision_def failure_kind_def failure_response_def
           split: prod.splits sum.splits)

theorem failure_envelope_is_uniform_witness:
  "failure_kind mem_backend (demo_env\<lparr>SERVICE_ROLE_KEY := None\<rparr>)
     (delete_org1 (Some ''Bearer root'')) demo_store = Some Misconfiguration
   \<and> status (fst (deprovision mem_backend (demo_env\<lparr>SERVICE_ROLE_KEY := None\<rparr>)
                     (delete_org1 (Some ''Bearer root'')) demo_store)) = 400
   \<and> failure_kind mem_backend demo_env (delete_org1 (Some ''Bearer root'')) demo_store_locked
       = Some DeletionFailed
   \<and> status (fst (deprovision mem_backend demo_env (delete_org1 (Some ''Bearer root''))
                     demo_store_locked)) = 400"
proof -
  have a: "failure_kind mem_backend (demo_env\<lparr>SERVICE_ROLE_KEY := None\<rparr>)
     (delete_org1 (Some ''Bearer root'')) demo_store = Some Misconfiguration"
    by (simp add: failure_kind_def model_defs mem_defs demo_defs)
  have b: "failure_kind mem_backend demo_env (delete_org1 (Some ''Bearer root''))
     demo_store_locked = Some DeletionFailed"
    by (simp add: failure_kind_def model_defs mem_defs demo_defs)
  from failure_envelope_is_uniform[OF a] failure_envelope_is_uniform[OF b] a b
  show ?thesis by blast
qed



text \<open>
  The run in which a \<open>deleteUser\<close> call rejects, on the store whose first linked profile
  has an id that is not a UUID: the loop stops at that call, the second account is not
  tried, the organization is neither deleted nor asked to be, and the rejection's message
  is the \<open>error\<close> field.
\<close>

lemma rejected_deletion_run:
  "fst (deprovision mem_backend demo_env (delete_org1 (Some ''Bearer root'')) demo_store_legacy)
     = failure_response ''@supabase/auth-js: Expected parameter to be UUID but is not''
   \<and> delete_attempts
        (trace (snd (deprovision mem_backend demo_env (delete_org1 (Some ''Bearer root''))
                       demo_store_legacy))) = [''legacy-7'']
   \<and> filter relational_query
        (trace (snd (deprovision mem_backend demo_env (delete_org1 (Some ''Bearer root''))
                       demo_store_legacy)))
       = [SelectRole demo_caller root_id (Some \<lparr>role = Some ''super_admin''\<rparr>),
          SelectOrg demo_admin (JStr ''org-1'')
            \<lparr>reply_data = Some \<lparr>org_id = ''org-1'', org_name = ''Acme''\<rparr>, reply_error = None\<rparr>,
          SelectUsers demo_admin (JStr ''org-1'')
            \<lparr>reply_data = Some [\<lparr>user_id = Some ''legacy-7''\<rparr>, \<lparr>user_id = Some u2_id\<rparr>],
             reply_error = None\<rparr>]
   \<and> world (snd (deprovision mem_backend demo_env (delete_org1 (Some ''Bearer root''))
                    demo_store_legacy)) = demo_store_legacy"
  by (simp add: model_defs mem_defs demo_defs)

subsection \<open>Deprovisioning twice\<close>










end
